theory Spec2Isabelle
  imports Main
begin

section \<open>JavaScript values\<close>

text \<open>
  The program of \<^verbatim>\<open>ReduxActions.ts\<close> handles values of TypeScript type \<^verbatim>\<open>any\<close>:
  payloads, parameter objects, HTTP responses and thrown values. They are modelled by
  one datatype. An object is the finite map of its own enumerable properties; the
  order of the keys, which no part of the program observes, is not modelled. Arrays
  and functions do not occur as values. Numbers are the integer-valued ones.
\<close>

datatype jsval =
    Undefined
  | Null
  | Bool bool
  | Num int
  | Str string
  | Obj "string \<Rightarrow> jsval option"

text \<open>The decimal rendering of an index, as JavaScript writes the keys of a string's
  characters: \<^verbatim>\<open>"0"\<close>, \<^verbatim>\<open>"1"\<close>, ..., \<^verbatim>\<open>"10"\<close>, ...\<close>

definition digit :: "nat \<Rightarrow> char" where
  "digit d = ''0123456789'' ! d"

function index_key :: "nat \<Rightarrow> string" where
  "index_key n = (if n < 10 then [digit n] else index_key (n div 10) @ [digit (n mod 10)])"
  by pat_completeness auto
termination
  by (relation "measure id") auto

declare index_key.simps [simp del]

text \<open>The own enumerable properties of a string value: one per character, keyed by
  its index.\<close>

definition str_props :: "string \<Rightarrow> (string \<Rightarrow> jsval option)" where
  "str_props s = map_of (zip (map index_key [0..<length s]) (map (\<lambda>c. Str [c]) s))"

text \<open>Object spread \<^verbatim>\<open>{...v}\<close>: the own enumerable properties of \<open>v\<close>. Spreading
  \<^verbatim>\<open>undefined\<close>, \<^verbatim>\<open>null\<close>, a boolean or a number contributes nothing and does
  not throw.\<close>

fun spread :: "jsval \<Rightarrow> (string \<Rightarrow> jsval option)" where
  "spread (Obj m) = m"
| "spread (Str s) = str_props s"
| "spread Undefined = Map.empty"
| "spread Null = Map.empty"
| "spread (Bool b) = Map.empty"
| "spread (Num n) = Map.empty"

text \<open>The value thrown by the engine when a property of \<^verbatim>\<open>undefined\<close> or
  \<^verbatim>\<open>null\<close> is read. Its message differs between engines and is left out.\<close>

definition TypeError :: jsval where
  "TypeError = Obj [''name'' \<mapsto> Str ''TypeError'']"

text \<open>Property read \<^verbatim>\<open>v.k\<close>: \<open>Inl\<close> is the thrown value, \<open>Inr\<close> the value read.
  Only own properties are modelled; the two keys the program reads, \<^verbatim>\<open>response\<close>
  and \<^verbatim>\<open>data\<close>, are on no built-in prototype.\<close>

fun get_prop :: "jsval \<Rightarrow> string \<Rightarrow> jsval + jsval" where
  "get_prop Undefined k = Inl TypeError"
| "get_prop Null k = Inl TypeError"
| "get_prop (Obj m) k = Inr (case m k of None \<Rightarrow> Undefined | Some v \<Rightarrow> v)"
| "get_prop (Str s) k =
     Inr (if k = ''length'' then Num (int (length s))
          else case str_props s k of None \<Rightarrow> Undefined | Some v \<Rightarrow> v)"
| "get_prop (Bool b) k = Inr Undefined"
| "get_prop (Num n) k = Inr Undefined"

text \<open>\<^verbatim>\<open>k in v\<close> restricted to own properties of an object.\<close>

fun has_key :: "jsval \<Rightarrow> string \<Rightarrow> bool" where
  "has_key (Obj m) k = (m k \<noteq> None)"
| "has_key (Str s) k = (k = ''length'' \<or> str_props s k \<noteq> None)"
| "has_key Undefined k = False"
| "has_key Null k = False"
| "has_key (Bool b) k = False"
| "has_key (Num n) k = False"

text \<open>The truthiness test of a conditional expression.\<close>

fun truthy :: "jsval \<Rightarrow> bool" where
  "truthy Undefined = False"
| "truthy Null = False"
| "truthy (Bool b) = b"
| "truthy (Num n) = (n \<noteq> 0)"
| "truthy (Str s) = (s \<noteq> [])"
| "truthy (Obj m) = True"

text \<open>The binding of an optional parameter: an argument that is left out is
  \<^verbatim>\<open>undefined\<close> in the body.\<close>

fun arg :: "jsval option \<Rightarrow> jsval" where
  "arg None = Undefined"
| "arg (Some v) = v"

section \<open>Actions\<close>

text \<open>
  \<^verbatim>\<open>createAction(type, payload?)\<close>:
  \<^verbatim>\<open>return payload === undefined ? { type } : { type, payload };\<close>
\<close>

definition createAction :: "string \<Rightarrow> jsval option \<Rightarrow> jsval" where
  "createAction type payload =
     (case arg payload of
        Undefined \<Rightarrow> Obj [''type'' \<mapsto> Str type]
      | _ \<Rightarrow> Obj [''type'' \<mapsto> Str type, ''payload'' \<mapsto> arg payload])"

text \<open>
  The action creators made by \<^verbatim>\<open>generateApiActionCreators\<close>. Building an action is
  pure, except that the error action logs its error first. Effects are recorded in a
  trace of events, threaded through every function that has one.
\<close>

datatype RequestType = Get | Post | Put | Delete | Patch

text \<open>How a call of the dispatch function ends: it returns a value or throws one.\<close>

datatype completion = Returns jsval | Throws jsval

text \<open>How a call of the HTTP client ends: its promise fulfils, its promise rejects,
  the call itself throws, or the promise stays pending for ever.\<close>

datatype settlement = Fulfills jsval | Rejects jsval | ThrowsSync jsval | NeverSettles

datatype event =
    Dispatched jsval completion
  | Logged jsval
  | ApiCalled RequestType string jsval settlement

text \<open>Modelled from the spec: \<^verbatim>\<open>logError\<close> is imported from \<^verbatim>\<open>@library/utility\<close>,
  which is not part of the sources at hand. The spec calls it an error-logging side
  effect consumed by a logging collaborator: it records its argument and returns.\<close>

definition logError :: "jsval \<Rightarrow> event list \<Rightarrow> event list" where
  "logError e tr = tr @ [Logged e]"

definition createApiRequestAction :: "string \<Rightarrow> jsval \<Rightarrow> jsval" where
  "createApiRequestAction type meta = Obj [''type'' \<mapsto> Str type, ''meta'' \<mapsto> meta]"

definition createApiErrorAction :: "string \<Rightarrow> jsval \<Rightarrow> jsval \<Rightarrow> event list \<Rightarrow> jsval \<times> event list" where
  "createApiErrorAction type meta error tr =
     (let tr1 = logError error tr
      in (Obj [''type'' \<mapsto> Str type, ''meta'' \<mapsto> meta, ''payload'' \<mapsto> error], tr1))"

definition createApiResponseAction :: "string \<Rightarrow> jsval \<Rightarrow> jsval \<Rightarrow> jsval" where
  "createApiResponseAction type meta payload =
     Obj [''type'' \<mapsto> Str type, ''meta'' \<mapsto> meta, ''payload'' \<mapsto> payload]"

record action_creators =
  request :: "jsval \<Rightarrow> event list \<Rightarrow> jsval \<times> event list"
  response :: "jsval \<Rightarrow> jsval \<Rightarrow> event list \<Rightarrow> jsval \<times> event list"
  error :: "jsval \<Rightarrow> jsval \<Rightarrow> event list \<Rightarrow> jsval \<times> event list"

text \<open>The two dummy parameters of the source only carry types and are left out.\<close>

definition generateApiActionCreators :: "string \<Rightarrow> string \<Rightarrow> string \<Rightarrow> action_creators" where
  "generateApiActionCreators requestType responseType errorType =
     \<lparr> request = (\<lambda>meta tr. (createApiRequestAction requestType meta, tr)),
       response = (\<lambda>resp meta tr. (createApiResponseAction responseType meta resp, tr)),
       error = (\<lambda>err meta tr. createApiErrorAction errorType meta err tr) \<rparr>"

section \<open>The request lifecycle\<close>

text \<open>
  An instance of the class holds the dispatch function of the store and the HTTP
  client. Both are outside the program: how a call of either ends is given by the
  instance, and may depend on everything that happened before (the trace so far).
\<close>

record ReduxActions =
  dispatch :: "event list \<Rightarrow> jsval \<Rightarrow> completion"
  api :: "event list \<Rightarrow> RequestType \<Rightarrow> string \<Rightarrow> jsval \<Rightarrow> settlement"

text \<open>\<^verbatim>\<open>this.dispatch(action)\<close>: the call is recorded together with how it ended.\<close>

definition this_dispatch :: "ReduxActions \<Rightarrow> jsval \<Rightarrow> event list \<Rightarrow> completion \<times> event list" where
  "this_dispatch this action tr =
     (let c = dispatch this tr action in (c, tr @ [Dispatched action c]))"

text \<open>The state of the promise returned by an async function once nothing more can
  happen in it.\<close>

datatype promise = Resolved jsval | Rejected jsval | Pending

text \<open>The outcome of the \<^verbatim>\<open>try\<close> block: it returns, it throws into the
  \<^verbatim>\<open>catch\<close> clause, or it stays suspended at the \<^verbatim>\<open>await\<close>.\<close>

datatype try_result = Return jsval | Thrown jsval | Suspended

text \<open>
  \<^verbatim>\<open>const requestPromise = requestType === "get"
      ? this.api.get(endpoint, { params })
      : this.api[requestType](endpoint, params);
  const response = await requestPromise;
  this.dispatch(actionCreators.response(response, meta));
  return response;\<close>
\<close>

definition try_block ::
  "ReduxActions \<Rightarrow> RequestType \<Rightarrow> string \<Rightarrow> action_creators \<Rightarrow> jsval \<Rightarrow> jsval \<Rightarrow> event list
     \<Rightarrow> try_result \<times> event list" where
  "try_block this requestType endpoint actionCreators params meta tr =
     (let a = (if requestType = Get then Obj [''params'' \<mapsto> params] else params);
          s = api this tr requestType endpoint a;
          tr1 = tr @ [ApiCalled requestType endpoint a s]
      in case s of
           ThrowsSync x \<Rightarrow> (Thrown x, tr1)
         | Rejects x \<Rightarrow> (Thrown x, tr1)
         | NeverSettles \<Rightarrow> (Suspended, tr1)
         | Fulfills resp \<Rightarrow>
             (let (action, tr2) = response actionCreators resp meta tr1;
                  (c, tr3) = this_dispatch this action tr2
              in case c of
                   Throws x \<Rightarrow> (Thrown x, tr3)
                 | Returns _ \<Rightarrow> (Return resp, tr3)))"

text \<open>
  \<^verbatim>\<open>catch (axiosError) {
      const error = axiosError.response ? axiosError.response.data : axiosError;
      this.dispatch(actionCreators.error(error, meta));
  }\<close>
  Whatever is thrown inside the clause rejects the promise of the async function;
  when the clause ends normally the function returns \<^verbatim>\<open>undefined\<close>.
\<close>

definition extract_error :: "jsval \<Rightarrow> jsval + jsval" where
  "extract_error axiosError =
     (case get_prop axiosError ''response'' of
        Inl x \<Rightarrow> Inl x
      | Inr r \<Rightarrow> if truthy r then get_prop r ''data'' else Inr axiosError)"

definition catch_block ::
  "ReduxActions \<Rightarrow> action_creators \<Rightarrow> jsval \<Rightarrow> jsval \<Rightarrow> event list \<Rightarrow> promise \<times> event list" where
  "catch_block this actionCreators meta axiosError tr =
     (case extract_error axiosError of
        Inl x \<Rightarrow> (Rejected x, tr)
      | Inr err \<Rightarrow>
          (let (action, tr1) = error actionCreators err meta tr;
               (c, tr2) = this_dispatch this action tr1
           in case c of
                Throws x \<Rightarrow> (Rejected x, tr2)
              | Returns _ \<Rightarrow> (Resolved Undefined, tr2)))"

text \<open>
  \<^verbatim>\<open>meta = { ...params, ...meta };\<close> with the default \<^verbatim>\<open>meta = {}\<close>, which applies
  when the argument is left out or \<^verbatim>\<open>undefined\<close>.
\<close>

definition merge_meta :: "jsval \<Rightarrow> jsval option \<Rightarrow> jsval" where
  "merge_meta params meta =
     (let meta0 = (case arg meta of Undefined \<Rightarrow> Obj Map.empty | v \<Rightarrow> v)
      in Obj (spread params ++ spread meta0))"

text \<open>\<^verbatim>\<open>dispatchApi(requestType, endpoint, actionCreators, params, meta = {})\<close>: the
  result is the final state of the returned promise and the trace of the call.\<close>

definition dispatchApi ::
  "ReduxActions \<Rightarrow> RequestType \<Rightarrow> string \<Rightarrow> action_creators \<Rightarrow> jsval \<Rightarrow> jsval option
     \<Rightarrow> promise \<times> event list" where
  "dispatchApi this requestType endpoint actionCreators params meta_arg =
     (let meta = merge_meta params meta_arg;
          (action, tr0) = request actionCreators meta [];
          (c, tr1) = this_dispatch this action tr0
      in case c of
           Throws x \<Rightarrow> (Rejected x, tr1)
         | Returns _ \<Rightarrow>
             (case try_block this requestType endpoint actionCreators params meta tr1 of
                (Return r, tr2) \<Rightarrow> (Resolved r, tr2)
              | (Suspended, tr2) \<Rightarrow> (Pending, tr2)
              | (Thrown x, tr2) \<Rightarrow> catch_block this actionCreators meta x tr2))"

section \<open>What a trace shows\<close>

text \<open>The actions passed to the dispatch function, in order.\<close>

fun dispatched :: "event list \<Rightarrow> jsval list" where
  "dispatched [] = []"
| "dispatched (Dispatched a c # tr) = a # dispatched tr"
| "dispatched (e # tr) = dispatched tr"

text \<open>The values thrown by the dispatch function, in order.\<close>

fun dispatch_throws :: "event list \<Rightarrow> jsval list" where
  "dispatch_throws [] = []"
| "dispatch_throws (Dispatched a (Throws x) # tr) = x # dispatch_throws tr"
| "dispatch_throws (e # tr) = dispatch_throws tr"

text \<open>The values logged, in order.\<close>

fun logged :: "event list \<Rightarrow> jsval list" where
  "logged [] = []"
| "logged (Logged e # tr) = e # logged tr"
| "logged (e # tr) = logged tr"

text \<open>The calls of the HTTP client: method, endpoint and second argument.\<close>

fun api_calls :: "event list \<Rightarrow> (RequestType \<times> string \<times> jsval) list" where
  "api_calls [] = []"
| "api_calls (ApiCalled m ep a s # tr) = (m, ep, a) # api_calls tr"
| "api_calls (e # tr) = api_calls tr"

text \<open>How the calls of the HTTP client ended.\<close>

fun settlements :: "event list \<Rightarrow> settlement list" where
  "settlements [] = []"
| "settlements (ApiCalled m ep a s # tr) = s # settlements tr"
| "settlements (e # tr) = settlements tr"

text \<open>The value an HTTP call failed with, whether its promise rejected or the call
  itself threw.\<close>

fun http_failure :: "settlement \<Rightarrow> jsval option" where
  "http_failure (Rejects e) = Some e"
| "http_failure (ThrowsSync e) = Some e"
| "http_failure (Fulfills r) = None"
| "http_failure NeverSettles = None"

text \<open>The value that reached the \<^verbatim>\<open>catch\<close> clause, if any: what the HTTP call
  failed with, or what the dispatch of the response action threw after the HTTP call
  had succeeded. A throw of the dispatch of the request action is not among them: that
  statement is before the \<^verbatim>\<open>try\<close> block.\<close>

fun caught :: "event list \<Rightarrow> jsval option" where
  "caught [] = None"
| "caught (ApiCalled m ep a (Rejects e) # tr) = Some e"
| "caught (ApiCalled m ep a (ThrowsSync e) # tr) = Some e"
| "caught (ApiCalled m ep a (Fulfills r) # Dispatched action (Throws x) # tr) = Some x"
| "caught (e # tr) = caught tr"

section \<open>The interface of the HTTP client\<close>

text \<open>
  The client is an \<^verbatim>\<open>AxiosInstance\<close>, a type the program imports from the axios
  library. Each of its methods takes the URL first; what it takes second depends on
  the method: \<^verbatim>\<open>get(url, config)\<close> and \<^verbatim>\<open>delete(url, config)\<close> take the request
  configuration, whose \<^verbatim>\<open>params\<close> key holds the query parameters;
  \<^verbatim>\<open>post(url, data, config)\<close>, \<^verbatim>\<open>put(url, data, config)\<close> and
  \<^verbatim>\<open>patch(url, data, config)\<close> take the request body.
\<close>

datatype argument_role = Config | Data

fun second_argument :: "RequestType \<Rightarrow> argument_role" where
  "second_argument Get = Config"
| "second_argument Delete = Config"
| "second_argument Post = Data"
| "second_argument Put = Data"
| "second_argument Patch = Data"

section \<open>Concrete stores and clients\<close>

text \<open>A store whose dispatch function returns the action it was given, as the plain
  store of the state container does.\<close>

definition store_ok :: "event list \<Rightarrow> jsval \<Rightarrow> completion" where
  "store_ok tr action = Returns action"

text \<open>A store in which handling an action of one given type throws \<open>x\<close>.\<close>

definition store_failing_on :: "string \<Rightarrow> jsval \<Rightarrow> event list \<Rightarrow> jsval \<Rightarrow> completion" where
  "store_failing_on type x tr action =
     (if get_prop action ''type'' = Inr (Str type) then Throws x else Returns action)"

text \<open>An HTTP client whose every call ends the same way.\<close>

definition client_answering ::
  "settlement \<Rightarrow> event list \<Rightarrow> RequestType \<Rightarrow> string \<Rightarrow> jsval \<Rightarrow> settlement" where
  "client_answering s tr requestType endpoint a = s"

definition things_response :: jsval where
  "things_response = Obj [''data'' \<mapsto> Str ''thing'', ''status'' \<mapsto> Num 200]"

definition server_error :: jsval where
  "server_error = Obj [''response'' \<mapsto> Obj [''data'' \<mapsto> Obj [''message'' \<mapsto> Str ''bad'']]]"

definition network_error :: jsval where
  "network_error = Obj [''message'' \<mapsto> Str ''Network Error'']"

definition reducer_error :: jsval where
  "reducer_error = Obj [''message'' \<mapsto> Str ''reducer failed'']"

definition page2 :: jsval where
  "page2 = Obj [''page'' \<mapsto> Num 2]"

definition named_page2 :: jsval where
  "named_page2 = Obj [''page'' \<mapsto> Num 2, ''name'' \<mapsto> Str ''a'']"

definition page5 :: jsval where
  "page5 = Obj [''page'' \<mapsto> Num 5]"

text \<open>Calls of \<^verbatim>\<open>dispatchApi\<close> on these stores and clients.\<close>

definition run_success :: "promise \<times> event list" where
  "run_success =
     dispatchApi \<lparr> dispatch = store_ok, api = client_answering (Fulfills things_response) \<rparr>
       Get ''/things''
       (generateApiActionCreators ''THING_REQUEST'' ''THING_RESPONSE'' ''THING_ERROR'')
       page2 None"

definition run_post :: "promise \<times> event list" where
  "run_post =
     dispatchApi \<lparr> dispatch = store_ok, api = client_answering (Fulfills things_response) \<rparr>
       Post ''/things''
       (generateApiActionCreators ''THING_REQUEST'' ''THING_RESPONSE'' ''THING_ERROR'')
       named_page2
       (Some page5)"

definition run_reducer_fails :: "promise \<times> event list" where
  "run_reducer_fails =
     dispatchApi \<lparr> dispatch = store_failing_on ''THING_RESPONSE'' reducer_error,
                   api = client_answering (Fulfills things_response) \<rparr>
       Get ''/things''
       (generateApiActionCreators ''THING_REQUEST'' ''THING_RESPONSE'' ''THING_ERROR'')
       page2 None"

definition run_server_error :: "promise \<times> event list" where
  "run_server_error =
     dispatchApi \<lparr> dispatch = store_ok, api = client_answering (Rejects server_error) \<rparr>
       Get ''/things''
       (generateApiActionCreators ''THING_REQUEST'' ''THING_RESPONSE'' ''THING_ERROR'')
       page2 None"

definition run_network_error :: "promise \<times> event list" where
  "run_network_error =
     dispatchApi \<lparr> dispatch = store_ok, api = client_answering (Rejects network_error) \<rparr>
       Get ''/things''
       (generateApiActionCreators ''THING_REQUEST'' ''THING_RESPONSE'' ''THING_ERROR'')
       page2 None"

definition run_reject_undefined :: "promise \<times> event list" where
  "run_reject_undefined =
     dispatchApi \<lparr> dispatch = store_ok, api = client_answering (Rejects Undefined) \<rparr>
       Get ''/things''
       (generateApiActionCreators ''THING_REQUEST'' ''THING_RESPONSE'' ''THING_ERROR'')
       page2 None"

definition run_reject_null :: "promise \<times> event list" where
  "run_reject_null =
     dispatchApi \<lparr> dispatch = store_ok, api = client_answering (Rejects Null) \<rparr>
       Get ''/things''
       (generateApiActionCreators ''THING_REQUEST'' ''THING_RESPONSE'' ''THING_ERROR'')
       page2 None"

definition run_delete :: "promise \<times> event list" where
  "run_delete =
     dispatchApi \<lparr> dispatch = store_ok, api = client_answering (Fulfills things_response) \<rparr>
       Delete ''/things''
       (generateApiActionCreators ''THING_REQUEST'' ''THING_RESPONSE'' ''THING_ERROR'')
       page2 None"

definition run_request_fails :: "promise \<times> event list" where
  "run_request_fails =
     dispatchApi \<lparr> dispatch = store_failing_on ''THING_REQUEST'' reducer_error,
                   api = client_answering (Fulfills things_response) \<rparr>
       Get ''/things''
       (generateApiActionCreators ''THING_REQUEST'' ''THING_RESPONSE'' ''THING_ERROR'')
       page2 None"

definition run_error_reducer_fails :: "promise \<times> event list" where
  "run_error_reducer_fails =
     dispatchApi \<lparr> dispatch = store_failing_on ''THING_ERROR'' reducer_error,
                   api = client_answering (Rejects network_error) \<rparr>
       Get ''/things''
       (generateApiActionCreators ''THING_REQUEST'' ''THING_RESPONSE'' ''THING_ERROR'')
       page2 None"

definition run_throw_undefined :: "promise \<times> event list" where
  "run_throw_undefined =
     dispatchApi \<lparr> dispatch = store_failing_on ''THING_RESPONSE'' Undefined,
                   api = client_answering (Fulfills things_response) \<rparr>
       Get ''/things''
       (generateApiActionCreators ''THING_REQUEST'' ''THING_RESPONSE'' ''THING_ERROR'')
       page2 None"

text \<open>The three actions of these calls, written out.\<close>

definition thing_request :: jsval where
  "thing_request = Obj [''type'' \<mapsto> Str ''THING_REQUEST'', ''meta'' \<mapsto> page2]"

definition thing_response :: jsval where
  "thing_response =
     Obj [''type'' \<mapsto> Str ''THING_RESPONSE'', ''meta'' \<mapsto> page2, ''payload'' \<mapsto> things_response]"

definition thing_error :: "jsval \<Rightarrow> jsval" where
  "thing_error e = Obj [''type'' \<mapsto> Str ''THING_ERROR'', ''meta'' \<mapsto> page2, ''payload'' \<mapsto> e]"

text \<open>The \<^verbatim>\<open>try\<close> block of the call \<open>run_reducer_fails\<close>, entered after the request
  action has been dispatched.\<close>

definition try_reducer_fails :: "try_result \<times> event list" where
  "try_reducer_fails =
     try_block \<lparr> dispatch = store_failing_on ''THING_RESPONSE'' reducer_error,
                 api = client_answering (Fulfills things_response) \<rparr>
       Get ''/things''
       (generateApiActionCreators ''THING_REQUEST'' ''THING_RESPONSE'' ''THING_ERROR'')
       page2 (merge_meta page2 None)
       [Dispatched (createApiRequestAction ''THING_REQUEST'' (merge_meta page2 None))
          (Returns thing_request)]"

section \<open>Auxiliary facts\<close>

lemma get_prop_throws:
  "get_prop v k = Inl x \<longleftrightarrow> (v = Undefined \<or> v = Null) \<and> x = TypeError"
  by (cases v) auto

lemma truthy_get_prop: "truthy r \<Longrightarrow> \<exists>d. get_prop r k = Inr d"
  by (cases r) auto

lemma extract_error_defined:
  "e \<noteq> Undefined \<Longrightarrow> e \<noteq> Null \<Longrightarrow> \<exists>err. extract_error e = Inr err"
  unfolding extract_error_def
  by (cases e) (auto dest: truthy_get_prop[where k="''data''"] split: sum.splits)

lemma extract_error_nullish:
  "extract_error e = Inl x \<longleftrightarrow> (e = Undefined \<or> e = Null) \<and> x = TypeError"
  unfolding extract_error_def
  by (cases e) (auto split: sum.splits option.splits simp: get_prop_throws)

lemma merge_meta_spread: "merge_meta params meta = Obj (spread params ++ spread (arg meta))"
  by (cases "arg meta") (simp_all add: merge_meta_def)

lemma dispatched_append [simp]: "dispatched (xs @ ys) = dispatched xs @ dispatched ys"
  by (induction xs rule: dispatched.induct) simp_all

lemma dispatch_throws_append [simp]:
  "dispatch_throws (xs @ ys) = dispatch_throws xs @ dispatch_throws ys"
  by (induction xs rule: dispatch_throws.induct) simp_all

lemma logged_append [simp]: "logged (xs @ ys) = logged xs @ logged ys"
  by (induction xs rule: logged.induct) simp_all

lemma api_calls_append [simp]: "api_calls (xs @ ys) = api_calls xs @ api_calls ys"
  by (induction xs rule: api_calls.induct) simp_all

lemma settlements_append [simp]: "settlements (xs @ ys) = settlements xs @ settlements ys"
  by (induction xs rule: settlements.induct) simp_all

lemmas run_defs = dispatchApi_def generateApiActionCreators_def this_dispatch_def try_block_def
  catch_block_def createApiErrorAction_def logError_def Let_def

lemmas run_splits = completion.splits settlement.splits sum.splits if_splits prod.splits
  try_result.splits

lemmas concrete_defs = run_defs merge_meta_def extract_error_def createApiRequestAction_def
  createApiResponseAction_def store_ok_def store_failing_on_def client_answering_def
  things_response_def server_error_def network_error_def reducer_error_def page2_def
  TypeError_def thing_request_def thing_response_def thing_error_def

text \<open>The concrete calls, evaluated.\<close>

lemma run_success_eval:
  "run_success =
     (Resolved things_response,
      [Dispatched thing_request (Returns thing_request),
       ApiCalled Get ''/things'' (Obj [''params'' \<mapsto> page2]) (Fulfills things_response),
       Dispatched thing_response (Returns thing_response)])"
  by (simp add: run_success_def concrete_defs)

lemma run_reducer_fails_eval:
  "run_reducer_fails =
     (Resolved Undefined,
      [Dispatched thing_request (Returns thing_request),
       ApiCalled Get ''/things'' (Obj [''params'' \<mapsto> page2]) (Fulfills things_response),
       Dispatched thing_response (Throws reducer_error),
       Logged reducer_error,
       Dispatched (thing_error reducer_error) (Returns (thing_error reducer_error))])"
  by (simp add: run_reducer_fails_def concrete_defs)

lemma run_server_error_eval:
  "run_server_error =
     (Resolved Undefined,
      [Dispatched thing_request (Returns thing_request),
       ApiCalled Get ''/things'' (Obj [''params'' \<mapsto> page2]) (Rejects server_error),
       Logged (Obj [''message'' \<mapsto> Str ''bad'']),
       Dispatched (thing_error (Obj [''message'' \<mapsto> Str ''bad'']))
         (Returns (thing_error (Obj [''message'' \<mapsto> Str ''bad''])))])"
  by (simp add: run_server_error_def concrete_defs)

lemma run_network_error_eval:
  "run_network_error =
     (Resolved Undefined,
      [Dispatched thing_request (Returns thing_request),
       ApiCalled Get ''/things'' (Obj [''params'' \<mapsto> page2]) (Rejects network_error),
       Logged network_error,
       Dispatched (thing_error network_error) (Returns (thing_error network_error))])"
  by (simp add: run_network_error_def concrete_defs)

lemma run_reject_undefined_eval:
  "run_reject_undefined =
     (Rejected TypeError,
      [Dispatched thing_request (Returns thing_request),
       ApiCalled Get ''/things'' (Obj [''params'' \<mapsto> page2]) (Rejects Undefined)])"
  by (simp add: run_reject_undefined_def concrete_defs)

lemma run_reject_null_eval:
  "run_reject_null =
     (Rejected TypeError,
      [Dispatched thing_request (Returns thing_request),
       ApiCalled Get ''/things'' (Obj [''params'' \<mapsto> page2]) (Rejects Null)])"
  by (simp add: run_reject_null_def concrete_defs)

lemma run_delete_eval:
  "run_delete =
     (Resolved things_response,
      [Dispatched thing_request (Returns thing_request),
       ApiCalled Delete ''/things'' page2 (Fulfills things_response),
       Dispatched thing_response (Returns thing_response)])"
  by (simp add: run_delete_def concrete_defs)

lemma run_request_fails_eval:
  "run_request_fails =
     (Rejected reducer_error, [Dispatched thing_request (Throws reducer_error)])"
  by (simp add: run_request_fails_def concrete_defs)

lemma run_error_reducer_fails_eval:
  "run_error_reducer_fails =
     (Rejected reducer_error,
      [Dispatched thing_request (Returns thing_request),
       ApiCalled Get ''/things'' (Obj [''params'' \<mapsto> page2]) (Rejects network_error),
       Logged network_error,
       Dispatched (thing_error network_error) (Throws reducer_error)])"
  by (simp add: run_error_reducer_fails_def concrete_defs)

lemma run_throw_undefined_eval:
  "run_throw_undefined =
     (Rejected TypeError,
      [Dispatched thing_request (Returns thing_request),
       ApiCalled Get ''/things'' (Obj [''params'' \<mapsto> page2]) (Fulfills things_response),
       Dispatched thing_response (Throws Undefined)])"
  by (simp add: run_throw_undefined_def concrete_defs)

lemma try_reducer_fails_eval:
  "try_reducer_fails =
     (Thrown reducer_error,
      [Dispatched thing_request (Returns thing_request),
       ApiCalled Get ''/things'' (Obj [''params'' \<mapsto> page2]) (Fulfills things_response),
       Dispatched thing_response (Throws reducer_error)])"
  by (simp add: try_reducer_fails_def concrete_defs)

lemma thing_request_eq:
  "createApiRequestAction ''THING_REQUEST'' (merge_meta page2 None) = thing_request"
  by (simp add: createApiRequestAction_def merge_meta_def thing_request_def page2_def)

lemma thing_response_eq:
  "createApiResponseAction ''THING_RESPONSE'' (merge_meta page2 None) r =
     Obj [''type'' \<mapsto> Str ''THING_RESPONSE'', ''meta'' \<mapsto> page2, ''payload'' \<mapsto> r]"
  by (simp add: createApiResponseAction_def merge_meta_def page2_def)

lemma thing_error_eq:
  "Obj [''type'' \<mapsto> Str ''THING_ERROR'', ''meta'' \<mapsto> merge_meta page2 None, ''payload'' \<mapsto> e]
     = thing_error e"
  by (simp add: merge_meta_def thing_error_def page2_def)

section \<open>Building actions\<close>

text \<open>
  Claim C6, amended. \<^verbatim>\<open>createAction(type)\<close> is exactly \<^verbatim>\<open>{type}\<close> and has no
  \<^verbatim>\<open>payload\<close> key. For every type and every payload \<open>p\<close> other than
  \<^verbatim>\<open>undefined\<close>, \<^verbatim>\<open>createAction(type, p)\<close> is \<^verbatim>\<open>{type, payload: p}\<close>; for
  \<open>p\<close> \<^verbatim>\<open>undefined\<close> it is \<^verbatim>\<open>{type}\<close>. In both cases reading the
  \<^verbatim>\<open>payload\<close> field of the result gives exactly \<open>p\<close>. The function is total on
  every string and every value (nothing is validated) and its result depends on its
  arguments only.
\<close>

theorem createAction_payload:
  "createAction type None = Obj [''type'' \<mapsto> Str type]
   \<and> \<not> has_key (createAction type None) ''payload''
   \<and> get_prop (createAction type (Some p)) ''type'' = Inr (Str type)
   \<and> get_prop (createAction type (Some p)) ''payload'' = Inr p
   \<and> (p \<noteq> Undefined \<longrightarrow>
        createAction type (Some p) = Obj [''type'' \<mapsto> Str type, ''payload'' \<mapsto> p])
   \<and> (p = Undefined \<longrightarrow> createAction type (Some p) = Obj [''type'' \<mapsto> Str type])"
  by (cases p) (simp_all add: createAction_def)

theorem createAction_payload_witness:
  "Num 7 \<noteq> Undefined
   \<and> createAction ''SET_PAGE'' (Some (Num 7)) =
       Obj [''type'' \<mapsto> Str ''SET_PAGE'', ''payload'' \<mapsto> Num 7]
   \<and> get_prop (createAction ''SET_PAGE'' (Some (Num 7))) ''payload'' = Inr (Num 7)
   \<and> createAction ''SET_PAGE'' (Some Undefined) = Obj [''type'' \<mapsto> Str ''SET_PAGE'']
   \<and> get_prop (createAction ''SET_PAGE'' (Some Undefined)) ''payload'' = Inr Undefined
   \<and> \<not> has_key (createAction ''SET_PAGE'' None) ''payload''"
  using createAction_payload [of "''SET_PAGE''" "Num 7"]
    createAction_payload [of "''SET_PAGE''" Undefined]
  by simp

text \<open>As stated, for every payload, the claim fails: for the payload
  \<^verbatim>\<open>undefined\<close> the result is \<^verbatim>\<open>{type}\<close>, which has no \<^verbatim>\<open>payload\<close> key,
  and not \<^verbatim>\<open>{type, payload: undefined}\<close>, which has one.\<close>

theorem createAction_payload_counterexample:
  "createAction ''SET_PAGE'' (Some Undefined)
     \<noteq> Obj [''type'' \<mapsto> Str ''SET_PAGE'', ''payload'' \<mapsto> Undefined]
   \<and> createAction ''SET_PAGE'' (Some Undefined) = Obj [''type'' \<mapsto> Str ''SET_PAGE'']
   \<and> \<not> has_key (createAction ''SET_PAGE'' (Some Undefined)) ''payload''
   \<and> has_key (Obj [''type'' \<mapsto> Str ''SET_PAGE'', ''payload'' \<mapsto> Undefined]) ''payload''"
proof -
  have a: "\<not> has_key (createAction ''SET_PAGE'' (Some Undefined)) ''payload''"
    by (simp add: createAction_def)
  have b: "has_key (Obj [''type'' \<mapsto> Str ''SET_PAGE'', ''payload'' \<mapsto> Undefined]) ''payload''"
    by simp
  have "createAction ''SET_PAGE'' (Some Undefined)
     \<noteq> Obj [''type'' \<mapsto> Str ''SET_PAGE'', ''payload'' \<mapsto> Undefined]"
    using a b by metis
  then show ?thesis
    using a b by (simp add: createAction_def)
qed

text \<open>
  Claim C9. \<^verbatim>\<open>createAction(type, undefined)\<close>, with the payload given and
  \<^verbatim>\<open>undefined\<close>, is \<^verbatim>\<open>{type}\<close> with no \<^verbatim>\<open>payload\<close> key, the same object as
  when the payload is left out.
\<close>

theorem createAction_undefined:
  "createAction type (Some Undefined) = Obj [''type'' \<mapsto> Str type]
   \<and> \<not> has_key (createAction type (Some Undefined)) ''payload''
   \<and> createAction type (Some Undefined) = createAction type None"
  by (simp add: createAction_def)

text \<open>
  Claim C7. For all strings \<open>requestType\<close>, \<open>responseType\<close> and \<open>errorType\<close>, the three
  functions of the generated triple are: \<^verbatim>\<open>request(meta)\<close> gives
  \<^verbatim>\<open>{type: requestType, meta}\<close>; \<^verbatim>\<open>response(payload, meta)\<close> gives
  \<^verbatim>\<open>{type: responseType, meta, payload}\<close>; \<^verbatim>\<open>error(error, meta)\<close> gives
  \<^verbatim>\<open>{type: errorType, meta, payload: error}\<close> and logs the error. The first two
  leave the trace as it is.
\<close>

theorem generateApiActionCreators_actions:
  "request (generateApiActionCreators requestType responseType errorType) meta tr
     = (Obj [''type'' \<mapsto> Str requestType, ''meta'' \<mapsto> meta], tr)
   \<and> response (generateApiActionCreators requestType responseType errorType) payload meta tr
     = (Obj [''type'' \<mapsto> Str responseType, ''meta'' \<mapsto> meta, ''payload'' \<mapsto> payload], tr)
   \<and> error (generateApiActionCreators requestType responseType errorType) err meta tr
     = (Obj [''type'' \<mapsto> Str errorType, ''meta'' \<mapsto> meta, ''payload'' \<mapsto> err],
        tr @ [Logged err])"
  by (simp add: generateApiActionCreators_def createApiRequestAction_def
      createApiResponseAction_def createApiErrorAction_def logError_def)

section \<open>The request lifecycle, verified\<close>

lemma run_post_eval:
  "snd run_post =
      [Dispatched
         (createApiRequestAction ''THING_REQUEST'' (merge_meta named_page2 (Some page5)))
         (Returns
           (createApiRequestAction ''THING_REQUEST'' (merge_meta named_page2 (Some page5)))),
       ApiCalled Post ''/things'' named_page2 (Fulfills things_response),
       Dispatched
         (createApiResponseAction ''THING_RESPONSE'' (merge_meta named_page2 (Some page5))
            things_response)
         (Returns
           (createApiResponseAction ''THING_RESPONSE'' (merge_meta named_page2 (Some page5))
              things_response))]"
  by (simp add: run_post_def run_defs store_ok_def client_answering_def)

text \<open>
  Claim C8. In every call the meta carried by every dispatched action is the merged
  meta, which is \<open>params\<close> overlaid by the caller's \<open>meta\<close>: a key of the caller's
  \<open>meta\<close> has the value given there, also when \<open>params\<close> has the key too, and every
  other key has the value of \<open>params\<close>.
\<close>

theorem dispatchApi_merged_meta:
  assumes run: "dispatchApi this requestType endpoint
                  (generateApiActionCreators rq rs er) params meta = (res, tr)"
  shows "(\<forall>a \<in> set (dispatched tr). get_prop a ''meta'' = Inr (merge_meta params meta))
       \<and> merge_meta params meta = Obj (spread params ++ spread (arg meta))
       \<and> (\<forall>k v. spread (arg meta) k = Some v \<longrightarrow> get_prop (merge_meta params meta) k = Inr v)
       \<and> (\<forall>k. spread (arg meta) k = None \<longrightarrow>
             get_prop (merge_meta params meta) k = get_prop (Obj (spread params)) k)"
proof -
  have "\<forall>a \<in> set (dispatched tr). get_prop a ''meta'' = Inr (merge_meta params meta)"
    using run
    by (auto simp: run_defs createApiRequestAction_def createApiResponseAction_def
        split: run_splits)
  moreover have "\<forall>k v. spread (arg meta) k = Some v \<longrightarrow>
                   get_prop (merge_meta params meta) k = Inr v"
    by (simp add: merge_meta_spread)
  moreover have "\<forall>k. spread (arg meta) k = None \<longrightarrow>
                   get_prop (merge_meta params meta) k = get_prop (Obj (spread params)) k"
    by (simp add: merge_meta_spread map_add_def)
  ultimately show ?thesis
    using merge_meta_spread by blast
qed

theorem dispatchApi_merged_meta_witness:
  "spread (arg (Some page5)) ''page'' = Some (Num 5)
   \<and> spread (arg (Some page5)) ''name'' = None
   \<and> get_prop (merge_meta named_page2 (Some page5)) ''page'' = Inr (Num 5)
   \<and> get_prop (merge_meta named_page2 (Some page5)) ''name'' = Inr (Str ''a'')
   \<and> dispatched (snd run_post) =
       [createApiRequestAction ''THING_REQUEST'' (merge_meta named_page2 (Some page5)),
        createApiResponseAction ''THING_RESPONSE'' (merge_meta named_page2 (Some page5))
          things_response]
   \<and> get_prop (createApiRequestAction ''THING_REQUEST'' (merge_meta named_page2 (Some page5)))
         ''meta'' = Inr (merge_meta named_page2 (Some page5))
   \<and> get_prop (createApiResponseAction ''THING_RESPONSE''
                  (merge_meta named_page2 (Some page5)) things_response)
         ''meta'' = Inr (merge_meta named_page2 (Some page5))"
proof -
  have run: "dispatchApi \<lparr> dispatch = store_ok, api = client_answering (Fulfills things_response) \<rparr>
       Post ''/things''
       (generateApiActionCreators ''THING_REQUEST'' ''THING_RESPONSE'' ''THING_ERROR'')
       named_page2 (Some page5) = (fst run_post, snd run_post)"
    by (simp add: run_post_def)
  note m = dispatchApi_merged_meta [OF run]
  have page: "spread (arg (Some page5)) ''page'' = Some (Num 5)"
    by (simp add: page5_def)
  have name: "spread (arg (Some page5)) ''name'' = None"
    by (simp add: page5_def)
  have acts: "dispatched (snd run_post) =
       [createApiRequestAction ''THING_REQUEST'' (merge_meta named_page2 (Some page5)),
        createApiResponseAction ''THING_RESPONSE'' (merge_meta named_page2 (Some page5))
          things_response]"
    by (simp add: run_post_eval)
  have "get_prop (merge_meta named_page2 (Some page5)) ''page'' = Inr (Num 5)"
    using m page by blast
  moreover have "get_prop (merge_meta named_page2 (Some page5)) ''name'' = Inr (Str ''a'')"
  proof -
    have "get_prop (merge_meta named_page2 (Some page5)) ''name''
            = get_prop (Obj (spread named_page2)) ''name''"
      using m name by blast
    also have "\<dots> = Inr (Str ''a'')"
      by (simp add: named_page2_def)
    finally show ?thesis .
  qed
  moreover have "\<forall>a \<in> set (dispatched (snd run_post)).
                   get_prop a ''meta'' = Inr (merge_meta named_page2 (Some page5))"
    using m by blast
  ultimately show ?thesis
    using page name acts by simp
qed

text \<open>
  Claim C5, amended. In every call in which the dispatch of the request action returns,
  the HTTP client is called once, and what it is called with is the endpoint and: for
  the method \<^verbatim>\<open>get\<close>, the request configuration \<^verbatim>\<open>{params: params}\<close>, so that
  \<open>params\<close> is under the query-parameters key; for the methods \<^verbatim>\<open>post\<close>,
  \<^verbatim>\<open>put\<close> and \<^verbatim>\<open>patch\<close>, \<open>params\<close> itself, which is the request body. The
  settlement of the call is the client's answer to exactly these arguments.
\<close>

theorem dispatchApi_request_config:
  assumes run: "dispatchApi this requestType endpoint
                  (generateApiActionCreators rq rs er) params meta = (res, tr)"
    and entered: "dispatch this [] (createApiRequestAction rq (merge_meta params meta))
                    = Returns v"
  shows "api_calls tr =
           [(requestType, endpoint,
             if requestType = Get then Obj [''params'' \<mapsto> params] else params)]
       \<and> settlements tr =
           [api this [Dispatched (createApiRequestAction rq (merge_meta params meta)) (Returns v)]
              requestType endpoint
              (if requestType = Get then Obj [''params'' \<mapsto> params] else params)]
       \<and> (requestType = Get \<longrightarrow> second_argument requestType = Config)
       \<and> (requestType = Post \<or> requestType = Put \<or> requestType = Patch \<longrightarrow>
            second_argument requestType = Data)"
proof -
  have "api_calls tr =
           [(requestType, endpoint,
             if requestType = Get then Obj [''params'' \<mapsto> params] else params)]
       \<and> settlements tr =
           [api this [Dispatched (createApiRequestAction rq (merge_meta params meta)) (Returns v)]
              requestType endpoint
              (if requestType = Get then Obj [''params'' \<mapsto> params] else params)]"
    using assms by (auto simp: run_defs split: run_splits)
  moreover have "requestType = Get \<longrightarrow> second_argument requestType = Config"
    by simp
  moreover have "requestType = Post \<or> requestType = Put \<or> requestType = Patch \<longrightarrow>
            second_argument requestType = Data"
    by auto
  ultimately show ?thesis by blast
qed

theorem dispatchApi_request_config_witness:
  "dispatch \<lparr> dispatch = store_ok, api = client_answering (Fulfills things_response) \<rparr> []
     (createApiRequestAction ''THING_REQUEST'' (merge_meta page2 None))
     = Returns (createApiRequestAction ''THING_REQUEST'' (merge_meta page2 None))
   \<and> api_calls (snd run_success) = [(Get, ''/things'', Obj [''params'' \<mapsto> page2])]
   \<and> settlements (snd run_success) = [Fulfills things_response]
   \<and> second_argument Get = Config
   \<and> dispatch \<lparr> dispatch = store_ok, api = client_answering (Fulfills things_response) \<rparr> []
       (createApiRequestAction ''THING_REQUEST'' (merge_meta named_page2 (Some page5)))
       = Returns (createApiRequestAction ''THING_REQUEST'' (merge_meta named_page2 (Some page5)))
   \<and> api_calls (snd run_post) = [(Post, ''/things'', named_page2)]
   \<and> settlements (snd run_post) = [Fulfills things_response]
   \<and> second_argument Post = Data"
proof -
  let ?inst = "\<lparr> dispatch = store_ok, api = client_answering (Fulfills things_response) \<rparr>"
  have get: "dispatchApi ?inst Get ''/things''
       (generateApiActionCreators ''THING_REQUEST'' ''THING_RESPONSE'' ''THING_ERROR'')
       page2 None = (fst run_success, snd run_success)"
    by (simp add: run_success_def)
  have get_entered: "dispatch ?inst []
       (createApiRequestAction ''THING_REQUEST'' (merge_meta page2 None))
     = Returns (createApiRequestAction ''THING_REQUEST'' (merge_meta page2 None))"
    by (simp add: store_ok_def)
  have post: "dispatchApi ?inst Post ''/things''
       (generateApiActionCreators ''THING_REQUEST'' ''THING_RESPONSE'' ''THING_ERROR'')
       named_page2 (Some page5) = (fst run_post, snd run_post)"
    by (simp add: run_post_def)
  have post_entered: "dispatch ?inst []
       (createApiRequestAction ''THING_REQUEST'' (merge_meta named_page2 (Some page5)))
     = Returns (createApiRequestAction ''THING_REQUEST'' (merge_meta named_page2 (Some page5)))"
    by (simp add: store_ok_def)
  show ?thesis
    using dispatchApi_request_config [OF get get_entered]
      dispatchApi_request_config [OF post post_entered] get_entered post_entered
    by (simp add: client_answering_def)
qed

text \<open>As stated, for every call and every other method, the claim fails twice. With the
  method \<^verbatim>\<open>delete\<close> the client is called with \<open>params\<close> as its second argument,
  which \<^verbatim>\<open>delete(url, config)\<close> takes as the request configuration, not as a body.
  And when the dispatch of the request action throws, the client is not called at
  all.\<close>

theorem dispatchApi_request_config_counterexample:
  "api_calls (snd run_delete) = [(Delete, ''/things'', page2)]
   \<and> second_argument Delete = Config
   \<and> second_argument Delete \<noteq> Data
   \<and> api_calls (snd run_request_fails) = []
   \<and> fst run_request_fails = Rejected reducer_error"
  by (simp add: run_delete_eval run_request_fails_eval)

text \<open>
  Claim C1, amended. In every call in which the promise of the HTTP client fulfils and
  the dispatch function does not throw, exactly two actions are dispatched, the request
  action and then the response action, both with the merged meta, and the returned
  promise resolves with the HTTP response.
\<close>

theorem dispatchApi_success:
  assumes run: "dispatchApi this requestType endpoint
                  (generateApiActionCreators rq rs er) params meta = (res, tr)"
    and fulfils: "settlements tr = [Fulfills resp]"
    and returns: "dispatch_throws tr = []"
  shows "dispatched tr =
           [createApiRequestAction rq (merge_meta params meta),
            createApiResponseAction rs (merge_meta params meta) resp]
         \<and> get_prop (createApiRequestAction rq (merge_meta params meta)) ''meta''
             = Inr (merge_meta params meta)
         \<and> get_prop (createApiResponseAction rs (merge_meta params meta) resp) ''meta''
             = Inr (merge_meta params meta)
         \<and> res = Resolved resp"
proof -
  have "dispatched tr =
           [createApiRequestAction rq (merge_meta params meta),
            createApiResponseAction rs (merge_meta params meta) resp]
         \<and> res = Resolved resp"
    using assms by (auto simp: run_defs split: run_splits)
  then show ?thesis
    by (simp add: createApiRequestAction_def createApiResponseAction_def)
qed

theorem dispatchApi_success_witness:
  "settlements (snd run_success) = [Fulfills things_response]
   \<and> dispatch_throws (snd run_success) = []
   \<and> dispatched (snd run_success) = [thing_request, thing_response]
   \<and> fst run_success = Resolved things_response"
proof -
  have run: "dispatchApi \<lparr> dispatch = store_ok, api = client_answering (Fulfills things_response) \<rparr>
       Get ''/things''
       (generateApiActionCreators ''THING_REQUEST'' ''THING_RESPONSE'' ''THING_ERROR'')
       page2 None = (fst run_success, snd run_success)"
    by (simp add: run_success_def)
  have fulfils: "settlements (snd run_success) = [Fulfills things_response]"
    by (simp add: run_success_eval)
  have returns: "dispatch_throws (snd run_success) = []"
    by (simp add: run_success_eval)
  show ?thesis
    using dispatchApi_success [OF run fulfils returns] fulfils returns
    by (simp add: thing_request_eq thing_response_eq thing_response_def)
qed

text \<open>As stated, for every call in which the promise of the HTTP client fulfils, the
  claim fails: when handling the response action throws, the exception is caught, an
  error action is dispatched as a third action and the promise resolves with
  \<^verbatim>\<open>undefined\<close>.\<close>

theorem dispatchApi_success_counterexample:
  "settlements (snd run_reducer_fails) = [Fulfills things_response]
   \<and> dispatched (snd run_reducer_fails) = [thing_request, thing_response, thing_error reducer_error]
   \<and> fst run_reducer_fails = Resolved Undefined
   \<and> fst run_reducer_fails \<noteq> Resolved things_response"
  by (simp add: run_reducer_fails_eval things_response_def)

text \<open>
  Claim C2, amended. In every call in which the promise of the HTTP client rejects with
  a value other than \<^verbatim>\<open>null\<close> and \<^verbatim>\<open>undefined\<close>, exactly two actions are
  dispatched, the request action and then the error action, whose payload is extracted
  from the rejection value; nothing else is dispatched, so no response action and no
  second terminal action.
\<close>

theorem dispatchApi_failure:
  assumes run: "dispatchApi this requestType endpoint
                  (generateApiActionCreators rq rs er) params meta = (res, tr)"
    and rejects: "settlements tr = [Rejects e]"
    and obj: "e \<noteq> Undefined" "e \<noteq> Null"
  shows "\<exists>err. extract_error e = Inr err \<and> dispatched tr =
           [createApiRequestAction rq (merge_meta params meta),
            Obj [''type'' \<mapsto> Str er, ''meta'' \<mapsto> merge_meta params meta, ''payload'' \<mapsto> err]]"
  using assms extract_error_defined [OF obj]
  by (auto simp: run_defs split: run_splits)

theorem dispatchApi_failure_witness:
  "settlements (snd run_server_error) = [Rejects server_error]
   \<and> server_error \<noteq> Undefined \<and> server_error \<noteq> Null
   \<and> dispatched (snd run_server_error) =
       [thing_request, thing_error (Obj [''message'' \<mapsto> Str ''bad''])]"
proof -
  have run: "dispatchApi \<lparr> dispatch = store_ok, api = client_answering (Rejects server_error) \<rparr>
       Get ''/things''
       (generateApiActionCreators ''THING_REQUEST'' ''THING_RESPONSE'' ''THING_ERROR'')
       page2 None = (fst run_server_error, snd run_server_error)"
    by (simp add: run_server_error_def)
  have rejects: "settlements (snd run_server_error) = [Rejects server_error]"
    by (simp add: run_server_error_eval)
  have obj: "server_error \<noteq> Undefined" "server_error \<noteq> Null"
    by (simp_all add: server_error_def)
  have payload: "extract_error server_error = Inr (Obj [''message'' \<mapsto> Str ''bad''])"
    by (simp add: extract_error_def server_error_def)
  show ?thesis
    using dispatchApi_failure [OF run rejects obj] rejects obj payload
    by (auto simp: thing_request_eq thing_error_eq)
qed

text \<open>As stated, for every rejection, the claim fails: when the promise rejects with
  \<^verbatim>\<open>undefined\<close>, reading \<^verbatim>\<open>axiosError.response\<close> throws inside the
  \<^verbatim>\<open>catch\<close> clause and the request action stays the only action dispatched.\<close>

theorem dispatchApi_failure_counterexample:
  "settlements (snd run_reject_undefined) = [Rejects Undefined]
   \<and> dispatched (snd run_reject_undefined) = [thing_request]
   \<and> logged (snd run_reject_undefined) = []
   \<and> fst run_reject_undefined = Rejected TypeError"
  by (simp add: run_reject_undefined_eval)

text \<open>
  Claim C3, amended. The returned promise rejects only if the dispatch of the request
  action throws, or the dispatch of the error action throws, or the value that reached
  the \<^verbatim>\<open>catch\<close> clause is \<^verbatim>\<open>null\<close> or \<^verbatim>\<open>undefined\<close>. In every other call,
  whatever reached the \<^verbatim>\<open>catch\<close> clause, and so every failure of the HTTP call, is
  caught, not re-thrown, and the promise resolves with \<^verbatim>\<open>undefined\<close>; that includes
  the calls in which the dispatch of the response action throws.
\<close>

theorem dispatchApi_never_rejects:
  assumes run: "dispatchApi this requestType endpoint
                  (generateApiActionCreators rq rs er) params meta = (res, tr)"
  shows "(\<forall>x. res = Rejected x \<longrightarrow>
            tr = [Dispatched (createApiRequestAction rq (merge_meta params meta)) (Throws x)]
          \<or> (\<exists>tr' err. tr = tr' @
                [Logged err,
                 Dispatched (Obj [''type'' \<mapsto> Str er, ''meta'' \<mapsto> merge_meta params meta,
                                  ''payload'' \<mapsto> err]) (Throws x)])
          \<or> (x = TypeError \<and> (caught tr = Some Undefined \<or> caught tr = Some Null)))
       \<and> (\<forall>s e. s \<in> set (settlements tr) \<and> http_failure s = Some e \<longrightarrow>
            caught tr = Some e \<and> (res = Resolved Undefined \<or> (\<exists>x. res = Rejected x)))
       \<and> (\<forall>c. caught tr = Some c \<longrightarrow> res = Resolved Undefined \<or> (\<exists>x. res = Rejected x))"
  using assms
  by (auto simp: run_defs extract_error_nullish split: run_splits)

theorem dispatchApi_never_rejects_witness:
  "fst run_request_fails = Rejected reducer_error
   \<and> snd run_request_fails =
       [Dispatched (createApiRequestAction ''THING_REQUEST'' (merge_meta page2 None))
          (Throws reducer_error)]
   \<and> Rejects network_error \<in> set (settlements (snd run_network_error))
   \<and> http_failure (Rejects network_error) = Some network_error
   \<and> caught (snd run_network_error) = Some network_error
   \<and> fst run_network_error = Resolved Undefined
   \<and> caught (snd run_reducer_fails) = Some reducer_error
   \<and> dispatch_throws (snd run_reducer_fails) = [reducer_error]
   \<and> fst run_reducer_fails = Resolved Undefined"
proof -
  have run1: "dispatchApi \<lparr> dispatch = store_failing_on ''THING_REQUEST'' reducer_error,
                   api = client_answering (Fulfills things_response) \<rparr>
       Get ''/things''
       (generateApiActionCreators ''THING_REQUEST'' ''THING_RESPONSE'' ''THING_ERROR'')
       page2 None = (fst run_request_fails, snd run_request_fails)"
    by (simp add: run_request_fails_def)
  have rej1: "fst run_request_fails = Rejected reducer_error"
    by (simp add: run_request_fails_eval)
  have tr1: "snd run_request_fails =
       [Dispatched (createApiRequestAction ''THING_REQUEST'' (merge_meta page2 None))
          (Throws reducer_error)]"
    by (simp add: run_request_fails_eval thing_request_eq)
  have run2: "dispatchApi \<lparr> dispatch = store_ok, api = client_answering (Rejects network_error) \<rparr>
       Get ''/things''
       (generateApiActionCreators ''THING_REQUEST'' ''THING_RESPONSE'' ''THING_ERROR'')
       page2 None = (fst run_network_error, snd run_network_error)"
    by (simp add: run_network_error_def)
  have fail2: "Rejects network_error \<in> set (settlements (snd run_network_error))"
    by (simp add: run_network_error_eval)
  have res2: "\<forall>x. fst run_network_error \<noteq> Rejected x"
    by (simp add: run_network_error_eval)
  have two: "caught (snd run_network_error) = Some network_error
             \<and> fst run_network_error = Resolved Undefined"
    using dispatchApi_never_rejects [OF run2] fail2 res2 by fastforce
  have run3: "dispatchApi \<lparr> dispatch = store_failing_on ''THING_RESPONSE'' reducer_error,
                   api = client_answering (Fulfills things_response) \<rparr>
       Get ''/things''
       (generateApiActionCreators ''THING_REQUEST'' ''THING_RESPONSE'' ''THING_ERROR'')
       page2 None = (fst run_reducer_fails, snd run_reducer_fails)"
    by (simp add: run_reducer_fails_def)
  have caught3: "caught (snd run_reducer_fails) = Some reducer_error"
    by (simp add: run_reducer_fails_eval)
  have throws3: "dispatch_throws (snd run_reducer_fails) = [reducer_error]"
    by (simp add: run_reducer_fails_eval)
  have res3: "\<forall>x. fst run_reducer_fails \<noteq> Rejected x"
    by (simp add: run_reducer_fails_eval)
  have three: "fst run_reducer_fails = Resolved Undefined"
    using dispatchApi_never_rejects [OF run3] caught3 res3 by blast
  have "fst run_request_fails = Rejected reducer_error \<longrightarrow>
          snd run_request_fails =
            [Dispatched (createApiRequestAction ''THING_REQUEST'' (merge_meta page2 None))
               (Throws reducer_error)]
          \<or> (\<exists>tr' err. snd run_request_fails = tr' @
                [Logged err,
                 Dispatched (Obj [''type'' \<mapsto> Str ''THING_ERROR'',
                                  ''meta'' \<mapsto> merge_meta page2 None, ''payload'' \<mapsto> err])
                   (Throws reducer_error)])
          \<or> (reducer_error = TypeError \<and>
               (caught (snd run_request_fails) = Some Undefined
                \<or> caught (snd run_request_fails) = Some Null))"
    using dispatchApi_never_rejects [OF run1] by blast
  then show ?thesis
    using rej1 tr1 fail2 two caught3 throws3 three by simp
qed

text \<open>As stated, for every call, the claim fails: when the HTTP call fails with a
  network error and handling the error action throws, the exception leaves the
  \<^verbatim>\<open>catch\<close> clause and the returned promise rejects.\<close>

theorem dispatchApi_never_rejects_counterexample:
  "settlements (snd run_error_reducer_fails) = [Rejects network_error]
   \<and> dispatched (snd run_error_reducer_fails) = [thing_request, thing_error network_error]
   \<and> fst run_error_reducer_fails = Rejected reducer_error"
  by (simp add: run_error_reducer_fails_eval)

text \<open>
  Claim C4, amended. In every call in which the promise of the HTTP client rejects with
  a value \<open>e\<close> other than \<^verbatim>\<open>null\<close> and \<^verbatim>\<open>undefined\<close>: when \<open>e\<close> carries a
  response (\<^verbatim>\<open>e.response\<close> is truthy), the payload of the dispatched error action is
  \<^verbatim>\<open>e.response.data\<close>; otherwise it is \<open>e\<close> itself; in both cases that error is
  logged, just before the error action is handed to the dispatch function.
\<close>

theorem dispatchApi_error_payload:
  assumes run: "dispatchApi this requestType endpoint
                  (generateApiActionCreators rq rs er) params meta = (res, tr)"
    and rejects: "settlements tr = [Rejects e]"
    and obj: "e \<noteq> Undefined" "e \<noteq> Null"
  shows "\<exists>r p tr1.
           get_prop e ''response'' = Inr r
         \<and> (truthy r \<longrightarrow> get_prop r ''data'' = Inr p)
         \<and> (\<not> truthy r \<longrightarrow> p = e)
         \<and> logged tr = [p]
         \<and> dispatched tr =
             [createApiRequestAction rq (merge_meta params meta),
              Obj [''type'' \<mapsto> Str er, ''meta'' \<mapsto> merge_meta params meta, ''payload'' \<mapsto> p]]
         \<and> tr = tr1 @
             [Logged p,
              Dispatched
                (Obj [''type'' \<mapsto> Str er, ''meta'' \<mapsto> merge_meta params meta, ''payload'' \<mapsto> p])
                (dispatch this (tr1 @ [Logged p])
                  (Obj [''type'' \<mapsto> Str er, ''meta'' \<mapsto> merge_meta params meta,
                        ''payload'' \<mapsto> p]))]"
proof -
  obtain r where r: "get_prop e ''response'' = Inr r"
    using obj by (cases e) auto
  obtain p where p: "extract_error e = Inr p"
    using extract_error_defined [OF obj] by blast
  have t: "truthy r \<longrightarrow> get_prop r ''data'' = Inr p"
    using r p by (auto simp: extract_error_def split: if_splits)
  have f: "\<not> truthy r \<longrightarrow> p = e"
    using r p by (auto simp: extract_error_def split: if_splits)
  have "logged tr = [p]
         \<and> dispatched tr =
             [createApiRequestAction rq (merge_meta params meta),
              Obj [''type'' \<mapsto> Str er, ''meta'' \<mapsto> merge_meta params meta, ''payload'' \<mapsto> p]]
         \<and> (\<exists>tr1. tr = tr1 @
             [Logged p,
              Dispatched
                (Obj [''type'' \<mapsto> Str er, ''meta'' \<mapsto> merge_meta params meta, ''payload'' \<mapsto> p])
                (dispatch this (tr1 @ [Logged p])
                  (Obj [''type'' \<mapsto> Str er, ''meta'' \<mapsto> merge_meta params meta,
                        ''payload'' \<mapsto> p]))])"
    using run rejects p
    by (auto simp: run_defs split: run_splits)
  then show ?thesis
    using r t f by blast
qed

theorem dispatchApi_error_payload_witness:
  "settlements (snd run_server_error) = [Rejects server_error]
   \<and> server_error \<noteq> Undefined \<and> server_error \<noteq> Null
   \<and> get_prop server_error ''response'' = Inr (Obj [''data'' \<mapsto> Obj [''message'' \<mapsto> Str ''bad'']])
   \<and> truthy (Obj [''data'' \<mapsto> Obj [''message'' \<mapsto> Str ''bad'']])
   \<and> logged (snd run_server_error) = [Obj [''message'' \<mapsto> Str ''bad'']]
   \<and> dispatched (snd run_server_error) =
       [thing_request, thing_error (Obj [''message'' \<mapsto> Str ''bad''])]
   \<and> settlements (snd run_network_error) = [Rejects network_error]
   \<and> network_error \<noteq> Undefined \<and> network_error \<noteq> Null
   \<and> get_prop network_error ''response'' = Inr Undefined
   \<and> \<not> truthy Undefined
   \<and> logged (snd run_network_error) = [network_error]
   \<and> dispatched (snd run_network_error) = [thing_request, thing_error network_error]"
proof -
  have run1: "dispatchApi \<lparr> dispatch = store_ok, api = client_answering (Rejects server_error) \<rparr>
       Get ''/things''
       (generateApiActionCreators ''THING_REQUEST'' ''THING_RESPONSE'' ''THING_ERROR'')
       page2 None = (fst run_server_error, snd run_server_error)"
    by (simp add: run_server_error_def)
  have rej1: "settlements (snd run_server_error) = [Rejects server_error]"
    by (simp add: run_server_error_eval)
  have obj1: "server_error \<noteq> Undefined" "server_error \<noteq> Null"
    by (simp_all add: server_error_def)
  have resp1: "get_prop server_error ''response''
                 = Inr (Obj [''data'' \<mapsto> Obj [''message'' \<mapsto> Str ''bad'']])"
    by (simp add: server_error_def)
  have run2: "dispatchApi \<lparr> dispatch = store_ok, api = client_answering (Rejects network_error) \<rparr>
       Get ''/things''
       (generateApiActionCreators ''THING_REQUEST'' ''THING_RESPONSE'' ''THING_ERROR'')
       page2 None = (fst run_network_error, snd run_network_error)"
    by (simp add: run_network_error_def)
  have rej2: "settlements (snd run_network_error) = [Rejects network_error]"
    by (simp add: run_network_error_eval)
  have obj2: "network_error \<noteq> Undefined" "network_error \<noteq> Null"
    by (simp_all add: network_error_def)
  have resp2: "get_prop network_error ''response'' = Inr Undefined"
    by (simp add: network_error_def)
  have a: "logged (snd run_server_error) = [Obj [''message'' \<mapsto> Str ''bad'']]
           \<and> dispatched (snd run_server_error) =
               [thing_request, thing_error (Obj [''message'' \<mapsto> Str ''bad''])]"
    using dispatchApi_error_payload [OF run1 rej1 obj1] resp1
    by (auto simp: thing_request_eq thing_error_eq)
  have b: "logged (snd run_network_error) = [network_error]
           \<and> dispatched (snd run_network_error) = [thing_request, thing_error network_error]"
    using dispatchApi_error_payload [OF run2 rej2 obj2] resp2
    by (auto simp: thing_request_eq thing_error_eq)
  show ?thesis
    using a b rej1 rej2 obj1 obj2 resp1 resp2 by simp
qed

text \<open>As stated, for every failing call, the claim fails: when the promise rejects with
  \<^verbatim>\<open>null\<close>, reading \<^verbatim>\<open>axiosError.response\<close> throws before anything is logged
  and before any error action is built; the call logs nothing and dispatches the
  request action alone.\<close>

theorem dispatchApi_error_payload_counterexample:
  "settlements (snd run_reject_null) = [Rejects Null]
   \<and> logged (snd run_reject_null) = []
   \<and> dispatched (snd run_reject_null) = [thing_request]
   \<and> fst run_reject_null = Rejected TypeError"
  by (simp add: run_reject_null_eval)

lemma try_exception_caught:
  assumes run: "dispatchApi this requestType endpoint
                  (generateApiActionCreators rq rs er) params meta = (res, tr)"
    and entered: "dispatch this [] (createApiRequestAction rq (merge_meta params meta)) = Returns v"
    and thrown: "try_block this requestType endpoint (generateApiActionCreators rq rs er) params
                   (merge_meta params meta)
                   [Dispatched (createApiRequestAction rq (merge_meta params meta)) (Returns v)]
                 = (Thrown x, tr2)"
    and err: "extract_error x = Inr err"
  shows "\<exists>c. tr = tr2 @ [Logged err,
                           Dispatched (Obj [''type'' \<mapsto> Str er, ''meta'' \<mapsto> merge_meta params meta,
                                            ''payload'' \<mapsto> err]) c]"
  using assms
  by (auto simp: dispatchApi_def this_dispatch_def catch_block_def generateApiActionCreators_def
      createApiErrorAction_def logError_def Let_def split: completion.splits)

lemma response_dispatch_caught:
  assumes run: "dispatchApi this requestType endpoint
                  (generateApiActionCreators rq rs er) params meta = (res, tr)"
    and fulfils: "settlements tr = [Fulfills resp]"
    and throws: "dispatch_throws tr = x # xs"
    and err: "extract_error x = Inr err"
  shows "logged tr = [err] \<and> dispatched tr =
           [createApiRequestAction rq (merge_meta params meta),
            createApiResponseAction rs (merge_meta params meta) resp,
            Obj [''type'' \<mapsto> Str er, ''meta'' \<mapsto> merge_meta params meta, ''payload'' \<mapsto> err]]"
  using assms
  by (auto simp: run_defs split: run_splits)

text \<open>
  Claim C10, amended. Every value other than \<^verbatim>\<open>null\<close> and \<^verbatim>\<open>undefined\<close> that
  is thrown inside the \<^verbatim>\<open>try\<close> block is handled by the \<^verbatim>\<open>catch\<close> clause: the
  payload extracted from it is logged and dispatched in an error action. This holds in
  particular when the HTTP call has succeeded and dispatching the response action
  throws; the call then dispatches three actions: request, response and error.
\<close>

theorem dispatchApi_try_exception:
  assumes run: "dispatchApi this requestType endpoint
                  (generateApiActionCreators rq rs er) params meta = (res, tr)"
    and obj: "x \<noteq> Undefined" "x \<noteq> Null"
  shows "\<exists>err. extract_error x = Inr err
     \<and> (\<forall>v tr2.
          dispatch this [] (createApiRequestAction rq (merge_meta params meta)) = Returns v
          \<and> try_block this requestType endpoint (generateApiActionCreators rq rs er) params
              (merge_meta params meta)
              [Dispatched (createApiRequestAction rq (merge_meta params meta)) (Returns v)]
            = (Thrown x, tr2)
          \<longrightarrow> (\<exists>c. tr = tr2 @ [Logged err,
                     Dispatched (Obj [''type'' \<mapsto> Str er, ''meta'' \<mapsto> merge_meta params meta,
                                      ''payload'' \<mapsto> err]) c]))
     \<and> (\<forall>resp xs.
          settlements tr = [Fulfills resp] \<and> dispatch_throws tr = x # xs
          \<longrightarrow> logged tr = [err] \<and> dispatched tr =
                [createApiRequestAction rq (merge_meta params meta),
                 createApiResponseAction rs (merge_meta params meta) resp,
                 Obj [''type'' \<mapsto> Str er, ''meta'' \<mapsto> merge_meta params meta,
                      ''payload'' \<mapsto> err]])"
proof -
  obtain err where err: "extract_error x = Inr err"
    using extract_error_defined [OF obj] by blast
  show ?thesis
    using try_exception_caught [OF run _ _ err] response_dispatch_caught [OF run _ _ err] err
    by blast
qed

theorem dispatchApi_try_exception_witness:
  "reducer_error \<noteq> Undefined \<and> reducer_error \<noteq> Null
   \<and> fst try_reducer_fails = Thrown reducer_error
   \<and> snd run_reducer_fails =
       snd try_reducer_fails @
         [Logged reducer_error,
          Dispatched (thing_error reducer_error) (Returns (thing_error reducer_error))]
   \<and> settlements (snd run_reducer_fails) = [Fulfills things_response]
   \<and> dispatch_throws (snd run_reducer_fails) = [reducer_error]
   \<and> logged (snd run_reducer_fails) = [reducer_error]
   \<and> dispatched (snd run_reducer_fails) =
       [thing_request, thing_response, thing_error reducer_error]"
proof -
  let ?inst = "\<lparr> dispatch = store_failing_on ''THING_RESPONSE'' reducer_error,
                 api = client_answering (Fulfills things_response) \<rparr>"
  have run: "dispatchApi ?inst Get ''/things''
       (generateApiActionCreators ''THING_REQUEST'' ''THING_RESPONSE'' ''THING_ERROR'')
       page2 None = (fst run_reducer_fails, snd run_reducer_fails)"
    by (simp add: run_reducer_fails_def)
  have obj: "reducer_error \<noteq> Undefined" "reducer_error \<noteq> Null"
    by (simp_all add: reducer_error_def)
  have entered: "dispatch ?inst []
                   (createApiRequestAction ''THING_REQUEST'' (merge_meta page2 None))
                 = Returns thing_request"
    by (simp add: thing_request_eq store_failing_on_def thing_request_def)
  have thrown: "try_block ?inst Get ''/things''
       (generateApiActionCreators ''THING_REQUEST'' ''THING_RESPONSE'' ''THING_ERROR'')
       page2 (merge_meta page2 None)
       [Dispatched (createApiRequestAction ''THING_REQUEST'' (merge_meta page2 None))
          (Returns thing_request)]
       = (Thrown reducer_error, snd try_reducer_fails)"
    using try_reducer_fails_eval by (simp add: try_reducer_fails_def)
  have fulfils: "settlements (snd run_reducer_fails) = [Fulfills things_response]"
    by (simp add: run_reducer_fails_eval)
  have throws: "dispatch_throws (snd run_reducer_fails) = [reducer_error]"
    by (simp add: run_reducer_fails_eval)
  have payload: "extract_error reducer_error = Inr reducer_error"
    by (simp add: extract_error_def reducer_error_def)
  have "logged (snd run_reducer_fails) = [reducer_error]
        \<and> dispatched (snd run_reducer_fails) =
            [thing_request, thing_response, thing_error reducer_error]
        \<and> (\<exists>c. snd run_reducer_fails =
               snd try_reducer_fails @
                 [Logged reducer_error, Dispatched (thing_error reducer_error) c])"
    using dispatchApi_try_exception [OF run obj] entered thrown fulfils throws payload
    by (auto simp: thing_request_eq thing_response_eq thing_error_eq thing_response_def)
  then show ?thesis
    using obj fulfils throws
    by (auto simp: try_reducer_fails_eval run_reducer_fails_eval)
qed

text \<open>As stated, for any exception, the claim fails: when the value thrown by the
  dispatch of the response action is \<^verbatim>\<open>undefined\<close>, it is caught, but reading
  \<^verbatim>\<open>axiosError.response\<close> throws and no error action is dispatched.\<close>

theorem dispatchApi_try_exception_counterexample:
  "settlements (snd run_throw_undefined) = [Fulfills things_response]
   \<and> dispatch_throws (snd run_throw_undefined) = [Undefined]
   \<and> dispatched (snd run_throw_undefined) = [thing_request, thing_response]
   \<and> logged (snd run_throw_undefined) = []
   \<and> fst run_throw_undefined = Rejected TypeError"
  by (simp add: run_throw_undefined_eval)

end
